theory Spec2Isabelle
  imports Main "HOL-Library.Word"
begin

unbundle bit_operations_syntax

section \<open>Data model\<close>

text \<open>
  Roots, public keys, signatures and domains are byte arrays (\<open>Uint8Array\<close>);
  \<open>ssz.Root.equals\<close> compares them byte by byte, which is equality of the lists.
  Slots, epochs and validator indices are non-negative numbers.
\<close>

type_synonym Bytes = "8 word list"
type_synonym Root = Bytes
type_synonym Slot = nat
type_synonym Epoch = nat
type_synonym ValidatorIndex = nat

record VoluntaryExit =
  epoch :: Epoch
  validatorIndex :: ValidatorIndex

record SignedVoluntaryExit =
  exit_message :: VoluntaryExit
  exit_signature :: Bytes

text \<open>Of the block body only the fields read by the modelled code are kept.\<close>

record BeaconBlockBody =
  randaoReveal :: Bytes
  eth1Data :: Bytes
  voluntaryExits :: "SignedVoluntaryExit list"

record BeaconBlock =
  slot :: Slot
  proposerIndex :: ValidatorIndex
  parentRoot :: Root
  stateRoot :: Root
  body :: BeaconBlockBody

record SignedBeaconBlock =
  message :: BeaconBlock
  signature :: Bytes

record BeaconBlockHeader =
  slot_h :: Slot
  proposerIndex_h :: ValidatorIndex
  parentRoot_h :: Root
  stateRoot_h :: Root
  bodyRoot :: Root

record Checkpoint =
  root :: Root
  epoch_c :: Epoch

record BeaconState =
  slot_s :: Slot
  latestBlockHeader :: BeaconBlockHeader
  randaoMix :: Bytes
  eth1DataVotes :: "Bytes list"
  validators :: "Bytes list"

text \<open>
  \<open>config.getTypes(slot)\<close> and \<open>config.getForkTypes(slot)\<close> select the SSZ types of
  the fork active at a slot. The SSZ library is not part of the sources, so the operations
  of a type that the code calls are fields of the configuration.
\<close>

record ForkTypes =
  BeaconBlock_defaultValue :: BeaconBlock
  BeaconBlock_hashTreeRoot :: "BeaconBlock \<Rightarrow> Root"
  BeaconBlockBody_hashTreeRoot :: "BeaconBlockBody \<Rightarrow> Root"
  BeaconBlockHeader_hashTreeRoot :: "BeaconBlockHeader \<Rightarrow> Root"
  BeaconState_hashTreeRoot :: "BeaconState \<Rightarrow> Root"

record IBeaconParams =
  SLOTS_PER_EPOCH :: nat
  DOMAIN_VOLUNTARY_EXIT :: Bytes

record IBeaconConfig =
  params :: IBeaconParams
  getTypes :: "Slot \<Rightarrow> ForkTypes"
  getForkTypes :: "Slot \<Rightarrow> ForkTypes"

record EpochContext =
  index2pubkey :: "Bytes list"

record CachedBeaconState =
  config :: IBeaconConfig
  epochCtx :: EpochContext
  state_c :: BeaconState

datatype SignatureSetType = single | aggregate

text \<open>
  \<open>pubkey\<close> is optional: reading a JavaScript array past its end gives
  \<open>undefined\<close> and does not throw.
\<close>

record ISignatureSet =
  sigType :: SignatureSetType
  pubkey :: "Bytes option"
  signingRoot :: Root
  signature_s :: Bytes

section \<open>Backfill verification: \<open>verifyBlocks\<close>\<close>

datatype BackfillSyncErrorCode = NOT_ANCHORED | NOT_LINEAR | INVALID_SIGNATURE

text \<open>
  The calls that leave the function, in the order they are made: the hash of a block
  message taken for a linkage check, the extraction of the proposer signature set of a
  block, and the batch verification of signature sets.
\<close>

datatype event =
  HashTreeRoot BeaconBlock
| GetProposerSignatureSet SignedBeaconBlock
| VerifySignatureSets "ISignatureSet list"

record IBlsVerifier =
  verifySignatureSets :: "ISignatureSet list \<Rightarrow> bool"

text \<open>
  What a call leaves behind: \<open>Inr ()\<close> for a normal return or \<open>Inl code\<close> for a
  thrown \<open>BackfillSyncError\<close>, the contents of the caller's \<open>blocks\<close> array after the
  call, and the external calls made.
\<close>

record verify_outcome =
  result :: "BackfillSyncErrorCode + unit"
  blocks_after :: "SignedBeaconBlock list"
  trace :: "event list"

text \<open>
  The body of the \<open>for\<close> loop, lines 18 to 25. \<open>nextRoot\<close> is a \<open>const\<close>: every
  iteration receives the value the loop started with.
\<close>

fun linkageLoop ::
  "IBeaconConfig \<Rightarrow> Root \<Rightarrow> Root \<Rightarrow> SignedBeaconBlock list \<Rightarrow>
   BackfillSyncErrorCode option \<times> event list" where
  "linkageLoop cfg nextRoot anchorRoot [] = (None, [])"
| "linkageLoop cfg nextRoot anchorRoot (block # rest) =
     (if BeaconBlock_hashTreeRoot (getForkTypes cfg (slot (message block))) (message block)
           \<noteq> nextRoot
      then (if nextRoot = anchorRoot
            then (Some NOT_ANCHORED, [HashTreeRoot (message block)])
            else (Some NOT_LINEAR, [HashTreeRoot (message block)]))
      else (case linkageLoop cfg nextRoot anchorRoot rest of
              (err, evs) \<Rightarrow> (err, HashTreeRoot (message block) # evs)))"

text \<open>
  \<open>Array.prototype.reverse\<close> reverses the array in place and returns that same
  array: the first component is the array's new contents, the second the value returned.
\<close>

definition reverse_in_place :: "'a list \<Rightarrow> 'a list \<times> 'a list" where
  "reverse_in_place xs = (rev xs, rev xs)"

text \<open>
  \<open>getProposerSignatureSet\<close> belongs to another package and is an argument here.
\<close>

definition verifyBlocks ::
  "IBeaconConfig \<Rightarrow> IBlsVerifier \<Rightarrow>
   (CachedBeaconState \<Rightarrow> SignedBeaconBlock \<Rightarrow> ISignatureSet) \<Rightarrow>
   CachedBeaconState \<Rightarrow> SignedBeaconBlock list \<Rightarrow> Root \<Rightarrow> verify_outcome" where
  "verifyBlocks cfg bls getProposerSignatureSet state blocks anchorRoot =
     (if length blocks = 0
      then \<lparr>result = Inr (), blocks_after = blocks, trace = []\<rparr>
      else
        (let nextRoot = anchorRoot;
             (blocks', iterated) = reverse_in_place blocks
         in case linkageLoop cfg nextRoot anchorRoot iterated of
              (Some code, evs) \<Rightarrow>
                \<lparr>result = Inl code, blocks_after = blocks', trace = evs\<rparr>
            | (None, evs) \<Rightarrow>
                (let signatures = map (getProposerSignatureSet state) blocks'
                 in if \<not> verifySignatureSets bls signatures
                    then \<lparr>result = Inl INVALID_SIGNATURE, blocks_after = blocks',
                          trace = evs @ map GetProposerSignatureSet blocks'
                                  @ [VerifySignatureSets signatures]\<rparr>
                    else \<lparr>result = Inr (), blocks_after = blocks',
                          trace = evs @ map GetProposerSignatureSet blocks'
                                  @ [VerifySignatureSets signatures]\<rparr>)))"

section \<open>Anchor state: \<open>computeAnchorCheckpoint\<close>, \<open>restoreStateCaches\<close>, \<open>initStateFromDb\<close>\<close>

text \<open>
  Modelled from the spec: the constant \<open>GENESIS_SLOT\<close> of \<open>../constants\<close>, which is
  not among the sources. The spec has the genesis state at slot 0.
\<close>

definition GENESIS_SLOT :: Slot where
  "GENESIS_SLOT = 0"

text \<open>
  Modelled from the spec: the constant \<open>ZERO_HASH\<close> of \<open>../constants\<close>, which is not
  among the sources. The spec calls the unset state root of a header a zero placeholder; a
  root is 32 bytes.
\<close>

definition ZERO_HASH :: Root where
  "ZERO_HASH = replicate 32 0"

text \<open>
  Modelled from the spec: \<open>computeEpochAtSlot\<close> of the state-transition package's
  utilities, which are not among the sources. An epoch spans a fixed number of slots
  (\<open>SLOTS_PER_EPOCH\<close>); the epoch of a slot is the one that contains it.
\<close>

definition computeEpochAtSlot :: "IBeaconConfig \<Rightarrow> Slot \<Rightarrow> Epoch" where
  "computeEpochAtSlot cfg s = s div SLOTS_PER_EPOCH (params cfg)"

text \<open>
  Modelled from the spec: \<open>computeStartSlotAtEpoch\<close> of the same utilities. The start
  slot of an epoch is its first slot.
\<close>

definition computeStartSlotAtEpoch :: "IBeaconConfig \<Rightarrow> Epoch \<Rightarrow> Slot" where
  "computeStartSlotAtEpoch cfg e = e * SLOTS_PER_EPOCH (params cfg)"

text \<open>
  Modelled from the spec: \<open>blockToHeader\<close> of the state-transition package, which is
  not among the sources. A header is the compact summary of a block: its slot, proposer
  index, parent root and state root, and the root of its body.
\<close>

definition blockToHeader :: "IBeaconConfig \<Rightarrow> BeaconBlock \<Rightarrow> BeaconBlockHeader" where
  "blockToHeader cfg block =
     \<lparr>slot_h = slot block,
      proposerIndex_h = proposerIndex block,
      parentRoot_h = parentRoot block,
      stateRoot_h = stateRoot block,
      bodyRoot = BeaconBlockBody_hashTreeRoot (getForkTypes cfg (slot block)) (body block)\<rparr>"

record anchor_checkpoint =
  checkpoint :: Checkpoint
  blockHeader :: BeaconBlockHeader

text \<open>
  Lines 170 to 200. \<open>clone\<close> copies the embedded header, so the patch of the copy's
  state root leaves the state as it is; in the model the header is a value.
\<close>

definition computeAnchorCheckpoint :: "IBeaconConfig \<Rightarrow> BeaconState \<Rightarrow> anchor_checkpoint" where
  "computeAnchorCheckpoint cfg anchorState =
     (let types = getTypes cfg (slot_s anchorState)
      in if slot_h (latestBlockHeader anchorState) = GENESIS_SLOT
         then
           (let block = (BeaconBlock_defaultValue types)
                          \<lparr>stateRoot := BeaconState_hashTreeRoot types anchorState\<rparr>;
                hdr = blockToHeader cfg block;
                rt = BeaconBlockHeader_hashTreeRoot types hdr
            in \<lparr>checkpoint = \<lparr>root = rt, epoch_c = computeEpochAtSlot cfg (slot_s anchorState)\<rparr>,
                blockHeader = hdr\<rparr>)
         else
           (let cloned = latestBlockHeader anchorState;
                hdr = (if stateRoot_h cloned = ZERO_HASH
                       then cloned\<lparr>stateRoot_h := BeaconState_hashTreeRoot types anchorState\<rparr>
                       else cloned);
                rt = BeaconBlockHeader_hashTreeRoot types hdr
            in \<lparr>checkpoint = \<lparr>root = rt, epoch_c = computeEpochAtSlot cfg (slot_s anchorState)\<rparr>,
                blockHeader = hdr\<rparr>))"

text \<open>
  Modelled from the spec: \<open>createCachedBeaconState\<close> of the state-transition package,
  which is not among the sources. A cached state is the state paired with derived epoch
  context (the mapping from validator index to public key).
\<close>

definition createCachedBeaconState :: "IBeaconConfig \<Rightarrow> BeaconState \<Rightarrow> CachedBeaconState" where
  "createCachedBeaconState cfg st =
     \<lparr>config = cfg, epochCtx = \<lparr>index2pubkey = validators st\<rparr>, state_c = st\<rparr>"

text \<open>
  Modelled from the spec: the two caches of \<open>./stateCache\<close>, which is not among the
  sources. They are two indices over cached states, one by state root and one by
  checkpoint.
\<close>

type_synonym StateContextCache = "Root \<rightharpoonup> CachedBeaconState"
type_synonym CheckpointStateCache = "Checkpoint \<rightharpoonup> CachedBeaconState"

text \<open>Modelled from the spec: the key of a cached state in the index by state root.\<close>

definition cachedStateRoot :: "CachedBeaconState \<Rightarrow> Root" where
  "cachedStateRoot item =
     BeaconState_hashTreeRoot (getTypes (config item) (slot_s (state_c item))) (state_c item)"

text \<open>
  Modelled from the spec: \<open>stateCache.add\<close>. An insertion overwrites any prior entry
  under the same key.
\<close>

definition StateContextCache_add :: "StateContextCache \<Rightarrow> CachedBeaconState \<Rightarrow> StateContextCache" where
  "StateContextCache_add cache item = cache(cachedStateRoot item \<mapsto> item)"

text \<open>Modelled from the spec: the lookup by state root.\<close>

definition StateContextCache_get :: "StateContextCache \<Rightarrow> Root \<Rightarrow> CachedBeaconState option" where
  "StateContextCache_get cache rt = cache rt"

text \<open>
  Modelled from the spec: \<open>checkpointStateCache.add\<close>. An insertion overwrites any
  prior entry under the same key.
\<close>

definition CheckpointStateCache_add ::
  "CheckpointStateCache \<Rightarrow> Checkpoint \<Rightarrow> CachedBeaconState \<Rightarrow> CheckpointStateCache" where
  "CheckpointStateCache_add cache cp item = cache(cp \<mapsto> item)"

text \<open>Modelled from the spec: the lookup by checkpoint.\<close>

definition CheckpointStateCache_get ::
  "CheckpointStateCache \<Rightarrow> Checkpoint \<Rightarrow> CachedBeaconState option" where
  "CheckpointStateCache_get cache cp = cache cp"

text \<open>
  Lines 148 to 161. The two caches are objects that the function updates; the model
  returns them as they are after the call.
\<close>

definition restoreStateCaches ::
  "IBeaconConfig \<Rightarrow> StateContextCache \<Rightarrow> CheckpointStateCache \<Rightarrow> BeaconState \<Rightarrow>
   StateContextCache \<times> CheckpointStateCache" where
  "restoreStateCaches cfg stateCache checkpointStateCache st =
     (let cp = checkpoint (computeAnchorCheckpoint cfg st);
          cachedBeaconState = createCachedBeaconState cfg st
      in (StateContextCache_add stateCache cachedBeaconState,
          CheckpointStateCache_add checkpointStateCache cp cachedBeaconState))"

text \<open>
  Modelled from the spec: the archives of the database, which is not among the sources. An
  archive is the list of what was archived, oldest first.
\<close>

record IBeaconDb =
  stateArchive :: "BeaconState list"
  blockArchive :: "SignedBeaconBlock list"

text \<open>Modelled from the spec: \<open>stateArchive.add(state)\<close> archives a state.\<close>

definition stateArchive_add :: "IBeaconDb \<Rightarrow> BeaconState \<Rightarrow> IBeaconDb" where
  "stateArchive_add db st = db\<lparr>stateArchive := stateArchive db @ [st]\<rparr>"

text \<open>
  Modelled from the spec: \<open>stateArchive.lastValue()\<close> gives the most recently archived
  state, or nothing when none exists.
\<close>

definition stateArchive_lastValue :: "IBeaconDb \<Rightarrow> BeaconState option" where
  "stateArchive_lastValue db =
     (case rev (stateArchive db) of [] \<Rightarrow> None | st # _ \<Rightarrow> Some st)"

datatype js_error = Error string

record log_entry =
  log_message :: string
  log_slot :: Slot
  log_epoch :: Epoch
  log_stateRoot :: Root

text \<open>
  Lines 102 to 121: the result (a thrown \<open>Error\<close> or the state returned) and what
  was written to the logger.
\<close>

definition initStateFromDb :: "IBeaconConfig \<Rightarrow> IBeaconDb \<Rightarrow> (js_error + BeaconState) \<times> log_entry list" where
  "initStateFromDb cfg db =
     (case stateArchive_lastValue db of
        None \<Rightarrow> (Inl (Error ''No state exists in database''), [])
      | Some st \<Rightarrow>
          (Inr st,
           [\<lparr>log_message = ''Initializing beacon state from db'',
             log_slot = slot_s st,
             log_epoch = computeEpochAtSlot cfg (slot_s st),
             log_stateRoot = BeaconState_hashTreeRoot (getTypes cfg (slot_s st)) st\<rparr>]))"

section \<open>Signature sets of voluntary exits\<close>

text \<open>Reading a JavaScript array at an index: \<open>undefined\<close> past the end.\<close>

definition js_index :: "'a list \<Rightarrow> nat \<Rightarrow> 'a option" where
  "js_index xs i = (if i < length xs then Some (xs ! i) else None)"

text \<open>
  Lines 22 to 36. \<open>state.getDomain\<close> and \<open>computeSigningRoot\<close> are not among the
  sources and are arguments; the SSZ type handed to \<open>computeSigningRoot\<close> is fixed by
  the type of the message.
\<close>

definition getVoluntaryExitSignatureSet ::
  "(CachedBeaconState \<Rightarrow> Bytes \<Rightarrow> Slot \<Rightarrow> Bytes) \<Rightarrow>
   (IBeaconConfig \<Rightarrow> VoluntaryExit \<Rightarrow> Bytes \<Rightarrow> Root) \<Rightarrow>
   CachedBeaconState \<Rightarrow> SignedVoluntaryExit \<Rightarrow> ISignatureSet" where
  "getVoluntaryExitSignatureSet getDomain computeSigningRoot state signedVoluntaryExit =
     (let cfg = config state;
          ctx = epochCtx state;
          sl = computeStartSlotAtEpoch cfg (epoch (exit_message signedVoluntaryExit));
          domain = getDomain state (DOMAIN_VOLUNTARY_EXIT (params cfg)) sl
      in \<lparr>sigType = single,
          pubkey = js_index (index2pubkey ctx) (validatorIndex (exit_message signedVoluntaryExit)),
          signingRoot = computeSigningRoot cfg (exit_message signedVoluntaryExit) domain,
          signature_s = exit_signature signedVoluntaryExit\<rparr>)"

definition getVoluntaryExitsSignatureSets ::
  "(CachedBeaconState \<Rightarrow> Bytes \<Rightarrow> Slot \<Rightarrow> Bytes) \<Rightarrow>
   (IBeaconConfig \<Rightarrow> VoluntaryExit \<Rightarrow> Bytes \<Rightarrow> Root) \<Rightarrow>
   CachedBeaconState \<Rightarrow> SignedBeaconBlock \<Rightarrow> ISignatureSet list" where
  "getVoluntaryExitsSignatureSets getDomain computeSigningRoot state signedBlock =
     map (getVoluntaryExitSignatureSet getDomain computeSigningRoot state)
       (voluntaryExits (body (message signedBlock)))"

section \<open>Block processing: \<open>processBlock\<close>\<close>

text \<open>
  The stage procedures return nothing and work on the state object they are handed: a
  stage is a function from the state before to a possible exception and the state the
  object holds afterwards. They are imported from files that are not among the sources and
  are fields of one argument.
\<close>

type_synonym 'e stage_result = "'e option \<times> BeaconState"

record 'e BlockProcessors =
  processBlockHeader :: "BeaconState \<Rightarrow> BeaconBlock \<Rightarrow> bool \<Rightarrow> 'e stage_result"
  processRandao :: "BeaconState \<Rightarrow> BeaconBlockBody \<Rightarrow> 'e stage_result"
  processEth1Data :: "BeaconState \<Rightarrow> BeaconBlockBody \<Rightarrow> 'e stage_result"
  processOperations :: "BeaconState \<Rightarrow> BeaconBlockBody \<Rightarrow> 'e stage_result"
  verifyBlockStateRoot :: "BeaconState \<Rightarrow> BeaconBlock \<Rightarrow> 'e stage_result"

text \<open>
  Lines 63 to 80. The parameter \<open>verify\<close> is optional with default \<open>true\<close>. An
  exception of a stage ends the call, and the state stays as that stage left it.
\<close>

definition processBlock ::
  "'e BlockProcessors \<Rightarrow> BeaconState \<Rightarrow> BeaconBlock \<Rightarrow> bool option \<Rightarrow> 'e stage_result" where
  "processBlock P state block verifyArg =
     (let verify = (case verifyArg of None \<Rightarrow> True | Some v \<Rightarrow> v)
      in case processBlockHeader P state block verify of
           (Some e, s1) \<Rightarrow> (Some e, s1)
         | (None, s1) \<Rightarrow>
       (case processRandao P s1 (body block) of
           (Some e, s2) \<Rightarrow> (Some e, s2)
         | (None, s2) \<Rightarrow>
       (case processEth1Data P s2 (body block) of
           (Some e, s3) \<Rightarrow> (Some e, s3)
         | (None, s3) \<Rightarrow>
       (case processOperations P s3 (body block) of
           (Some e, s4) \<Rightarrow> (Some e, s4)
         | (None, s4) \<Rightarrow>
       (if verify then verifyBlockStateRoot P s4 block else (None, s4))))))"

text \<open>The stages as the spec lists them: run in the order of the list, up to the first failure.\<close>

fun run_stages :: "(BeaconState \<Rightarrow> 'e stage_result) list \<Rightarrow> BeaconState \<Rightarrow> 'e stage_result" where
  "run_stages [] s = (None, s)"
| "run_stages (f # fs) s =
     (case f s of (Some e, s') \<Rightarrow> (Some e, s') | (None, s') \<Rightarrow> run_stages fs s')"

text \<open>
  The stage procedures of \<open>./blockHeader\<close>, \<open>./randao\<close>, \<open>./eth1Data\<close>,
  \<open>./operations\<close> and \<open>./rootVerification\<close> are not among the sources. What follows
  writes them from section 4.1 of the spec, which also lists the failures: invalid header,
  invalid randao, invalid eth1 data, invalid operation and state-root mismatch.
\<close>

datatype transition_error =
  InvalidHeader | InvalidRandao | InvalidEth1Data | InvalidOperation | StateRootMismatch

text \<open>
  Modelled from the spec: \<open>processBlockHeader\<close>. It checks parent-root linkage and slot
  monotonicity and updates the block header field of the state; a header embedded in a
  state has a zeroed state root.
\<close>

definition spec_processBlockHeader ::
  "ForkTypes \<Rightarrow> BeaconState \<Rightarrow> BeaconBlock \<Rightarrow> bool \<Rightarrow> transition_error stage_result" where
  "spec_processBlockHeader types st block verify =
     (if parentRoot block \<noteq> BeaconBlockHeader_hashTreeRoot types (latestBlockHeader st)
         \<or> \<not> slot_h (latestBlockHeader st) < slot block
      then (Some InvalidHeader, st)
      else (None, st\<lparr>latestBlockHeader :=
              \<lparr>slot_h = slot block,
               proposerIndex_h = proposerIndex block,
               parentRoot_h = parentRoot block,
               stateRoot_h = ZERO_HASH,
               bodyRoot = BeaconBlockBody_hashTreeRoot types (body block)\<rparr>\<rparr>))"

text \<open>
  Modelled from the spec: \<open>processRandao\<close>. It mixes the randao reveal into the running
  randao mix. The spec does not say when a reveal is invalid; it is taken as valid.
\<close>

definition spec_processRandao ::
  "BeaconState \<Rightarrow> BeaconBlockBody \<Rightarrow> transition_error stage_result" where
  "spec_processRandao st bd =
     (None, st\<lparr>randaoMix := map (\<lambda>(a, b). a XOR b) (zip (randaoMix st) (randaoReveal bd))\<rparr>)"

text \<open>
  Modelled from the spec: \<open>processEth1Data\<close>. It folds the block's eth1 vote into the
  tally. The spec does not say when a vote is invalid; it is taken as valid.
\<close>

definition spec_processEth1Data ::
  "BeaconState \<Rightarrow> BeaconBlockBody \<Rightarrow> transition_error stage_result" where
  "spec_processEth1Data st bd = (None, st\<lparr>eth1DataVotes := eth1DataVotes st @ [eth1Data bd]\<rparr>)"

text \<open>
  Modelled from the spec: \<open>processOperations\<close>. It processes each operation of the body
  in order, up to the first failure. What one operation does is an argument.
\<close>

definition spec_processOperations ::
  "(SignedVoluntaryExit \<Rightarrow> BeaconState \<Rightarrow> transition_error stage_result) \<Rightarrow>
   BeaconState \<Rightarrow> BeaconBlockBody \<Rightarrow> transition_error stage_result" where
  "spec_processOperations processVoluntaryExit st bd =
     run_stages (map processVoluntaryExit (voluntaryExits bd)) st"

text \<open>
  Modelled from the spec: \<open>verifyBlockStateRoot\<close>. It computes the hash of the resulting
  state and compares it against the block's declared state root.
\<close>

definition spec_verifyBlockStateRoot ::
  "ForkTypes \<Rightarrow> BeaconState \<Rightarrow> BeaconBlock \<Rightarrow> transition_error stage_result" where
  "spec_verifyBlockStateRoot types st block =
     (if BeaconState_hashTreeRoot types st \<noteq> stateRoot block
      then (Some StateRootMismatch, st)
      else (None, st))"

text \<open>Modelled from the spec: the five procedures above, as one argument.\<close>

definition spec_processors ::
  "ForkTypes \<Rightarrow> (SignedVoluntaryExit \<Rightarrow> BeaconState \<Rightarrow> transition_error stage_result) \<Rightarrow>
   transition_error BlockProcessors" where
  "spec_processors types processVoluntaryExit =
     \<lparr>processBlockHeader = spec_processBlockHeader types,
      processRandao = spec_processRandao,
      processEth1Data = spec_processEth1Data,
      processOperations = spec_processOperations processVoluntaryExit,
      verifyBlockStateRoot = spec_verifyBlockStateRoot types\<rparr>"

section \<open>The linkage walk as the spec describes it\<close>

text \<open>
  Section 4.4 of the spec, for comparison with \<open>linkageLoop\<close>: the expected linking root
  starts as the anchor root, and after a block has matched it becomes the parent root that
  block records. A mismatch on the first block is \<open>NOT_ANCHORED\<close>, on a later block
  \<open>NOT_LINEAR\<close>.
\<close>

fun linkage_as_specified ::
  "IBeaconConfig \<Rightarrow> bool \<Rightarrow> Root \<Rightarrow> SignedBeaconBlock list \<Rightarrow> BackfillSyncErrorCode option" where
  "linkage_as_specified cfg first expected [] = None"
| "linkage_as_specified cfg first expected (block # rest) =
     (if BeaconBlock_hashTreeRoot (getForkTypes cfg (slot (message block))) (message block)
           \<noteq> expected
      then (if first then Some NOT_ANCHORED else Some NOT_LINEAR)
      else linkage_as_specified cfg False (parentRoot (message block)) rest)"

text \<open>
  The cryptographic steps among the events of a trace: the extraction of a signature set
  and the call to the batch verifier.
\<close>

fun is_signature_step :: "event \<Rightarrow> bool" where
  "is_signature_step (VerifySignatureSets sets) = True"
| "is_signature_step (GetProposerSignatureSet block) = True"
| "is_signature_step (HashTreeRoot m) = False"

section \<open>Concrete instances\<close>

text \<open>
  A configuration with 32 slots per epoch and small stand-ins for the SSZ hashes: the hash
  of a block is its slot followed by its parent root, the hash of a header its slot
  followed by its state root, the hash of a state its slot and its number of validators.
\<close>

definition example_body :: BeaconBlockBody where
  "example_body = \<lparr>randaoReveal = [5, 6], eth1Data = [9], voluntaryExits = []\<rparr>"

definition example_types :: ForkTypes where
  "example_types =
     \<lparr>BeaconBlock_defaultValue =
        \<lparr>slot = 0, proposerIndex = 0, parentRoot = ZERO_HASH, stateRoot = ZERO_HASH,
         body = \<lparr>randaoReveal = [], eth1Data = [], voluntaryExits = []\<rparr>\<rparr>,
      BeaconBlock_hashTreeRoot = (\<lambda>m. word_of_nat (slot m) # parentRoot m),
      BeaconBlockBody_hashTreeRoot = (\<lambda>b. word_of_nat (length (voluntaryExits b)) # eth1Data b),
      BeaconBlockHeader_hashTreeRoot = (\<lambda>h. word_of_nat (slot_h h) # stateRoot_h h),
      BeaconState_hashTreeRoot = (\<lambda>s. [word_of_nat (slot_s s), word_of_nat (length (validators s))])\<rparr>"

definition example_config :: IBeaconConfig where
  "example_config =
     \<lparr>params = \<lparr>SLOTS_PER_EPOCH = 32, DOMAIN_VOLUNTARY_EXIT = [4, 0, 0, 0]\<rparr>,
      getTypes = (\<lambda>s. example_types),
      getForkTypes = (\<lambda>s. example_types)\<rparr>"

text \<open>
  A chain of two blocks: \<open>block_1\<close> at slot 1, and \<open>block_2\<close> at slot 2 whose parent
  root is the hash \<open>[1, 0]\<close> of \<open>block_1\<close>. The hash of \<open>block_2\<close> is \<open>[2, 1, 0]\<close>.
\<close>

definition block_1 :: SignedBeaconBlock where
  "block_1 = \<lparr>message = \<lparr>slot = 1, proposerIndex = 0, parentRoot = [0], stateRoot = [7],
                          body = example_body\<rparr>,
              signature = [1, 1]\<rparr>"

definition block_2 :: SignedBeaconBlock where
  "block_2 = \<lparr>message = \<lparr>slot = 2, proposerIndex = 1, parentRoot = [1, 0], stateRoot = [8],
                          body = example_body\<rparr>,
              signature = [2, 2]\<rparr>"

text \<open>
  \<open>block_2\<close> under another signature: the message, and so the hash, is that of
  \<open>block_2\<close>.
\<close>

definition block_2_resigned :: SignedBeaconBlock where
  "block_2_resigned = block_2\<lparr>signature := [3, 3]\<rparr>"

text \<open>\<open>block_1\<close> with its parent-root field changed; its hash becomes \<open>[1, 9]\<close>.\<close>

definition block_1_broken :: SignedBeaconBlock where
  "block_1_broken = block_1\<lparr>message := (message block_1)\<lparr>parentRoot := [9]\<rparr>\<rparr>"

definition example_state :: BeaconState where
  "example_state =
     \<lparr>slot_s = 70,
      latestBlockHeader = \<lparr>slot_h = 69, proposerIndex_h = 3, parentRoot_h = [1],
                           stateRoot_h = ZERO_HASH, bodyRoot = [2]\<rparr>,
      randaoMix = [3, 3],
      eth1DataVotes = [],
      validators = [[10], [11], [12]]\<rparr>"

definition genesis_state :: BeaconState where
  "genesis_state =
     \<lparr>slot_s = 0,
      latestBlockHeader = \<lparr>slot_h = 0, proposerIndex_h = 0, parentRoot_h = ZERO_HASH,
                           stateRoot_h = ZERO_HASH, bodyRoot = [0]\<rparr>,
      randaoMix = [0, 0],
      eth1DataVotes = [],
      validators = [[10], [11]]\<rparr>"

definition example_cached :: CachedBeaconState where
  "example_cached = createCachedBeaconState example_config example_state"

text \<open>A stand-in for \<open>getProposerSignatureSet\<close>, and two batch verifiers.\<close>

definition example_proposer_set :: "CachedBeaconState \<Rightarrow> SignedBeaconBlock \<Rightarrow> ISignatureSet" where
  "example_proposer_set st block =
     \<lparr>sigType = single,
      pubkey = js_index (index2pubkey (epochCtx st)) (proposerIndex (message block)),
      signingRoot = BeaconBlock_hashTreeRoot example_types (message block),
      signature_s = signature block\<rparr>"

definition bls_accept :: IBlsVerifier where
  "bls_accept = \<lparr>verifySignatureSets = (\<lambda>sets. True)\<rparr>"

definition bls_reject :: IBlsVerifier where
  "bls_reject = \<lparr>verifySignatureSets = (\<lambda>sets. False)\<rparr>"

text \<open>
  A block at slot 70 on top of the header embedded in \<open>example_state\<close> (whose hash is 69
  followed by the zero hash), and the stage procedures over the example hashes, with a
  voluntary exit that does nothing.
\<close>

definition block_70 :: BeaconBlock where
  "block_70 = \<lparr>slot = 70, proposerIndex = 2, parentRoot = 69 # ZERO_HASH, stateRoot = [0],
               body = example_body\<rparr>"

definition example_processors :: "transition_error BlockProcessors" where
  "example_processors = spec_processors example_types (\<lambda>e s. (None, s))"

section \<open>Theorems\<close>

text \<open>
  C7. \<open>verifyBlocks\<close> on an empty block list returns normally, for every state and
  every anchor root; it takes no hash for a linkage check and makes no call to the
  batch verifier, and the (empty) array is as it was.
\<close>

theorem verifyBlocks_empty:
  "verifyBlocks cfg bls gps state [] anchorRoot =
     \<lparr>result = Inr (), blocks_after = [], trace = []\<rparr>"
  by (simp add: verifyBlocks_def)

subsection \<open>The linkage loop\<close>

lemma linkageLoop_pass_events:
  "fst (linkageLoop cfg nextRoot anchorRoot bs) = None \<Longrightarrow>
   snd (linkageLoop cfg nextRoot anchorRoot bs) = map (\<lambda>b. HashTreeRoot (message b)) bs"
  by (induction bs) (auto split: if_splits prod.splits)

lemma linkageLoop_no_signature_step:
  "filter is_signature_step (snd (linkageLoop cfg nextRoot anchorRoot bs)) = []"
  by (induction bs) (auto split: if_splits prod.splits)

text \<open>
  The loop passes exactly when every block of the list hashes to the root the loop was
  started with.
\<close>

lemma linkageLoop_pass_iff:
  "fst (linkageLoop cfg nextRoot anchorRoot bs) = None \<longleftrightarrow>
   (\<forall>b \<in> set bs.
      BeaconBlock_hashTreeRoot (getForkTypes cfg (slot (message b))) (message b) = nextRoot)"
  by (induction bs) (auto split: if_splits prod.splits)

lemma linkageLoop_anchor_code:
  "fst (linkageLoop cfg anchorRoot anchorRoot bs) = Some code \<Longrightarrow> code = NOT_ANCHORED"
  by (induction bs) (auto split: if_splits prod.splits)

lemma verifyBlocks_linkage_failure:
  assumes "fst (linkageLoop cfg anchorRoot anchorRoot (rev blocks)) = Some code"
  shows "verifyBlocks cfg bls gps st blocks anchorRoot =
           \<lparr>result = Inl code, blocks_after = rev blocks,
            trace = snd (linkageLoop cfg anchorRoot anchorRoot (rev blocks))\<rparr>"
proof -
  from assms have "blocks \<noteq> []" by (cases blocks) auto
  with assms show ?thesis
    by (cases "linkageLoop cfg anchorRoot anchorRoot (rev blocks)")
       (simp add: verifyBlocks_def reverse_in_place_def)
qed

lemma verifyBlocks_linkage_pass:
  assumes "blocks \<noteq> []" "fst (linkageLoop cfg anchorRoot anchorRoot (rev blocks)) = None"
  shows "verifyBlocks cfg bls gps st blocks anchorRoot =
           \<lparr>result = (if verifySignatureSets bls (map (gps st) (rev blocks))
                      then Inr () else Inl INVALID_SIGNATURE),
            blocks_after = rev blocks,
            trace = map (\<lambda>b. HashTreeRoot (message b)) (rev blocks)
                    @ map GetProposerSignatureSet (rev blocks)
                    @ [VerifySignatureSets (map (gps st) (rev blocks))]\<rparr>"
  using assms linkageLoop_pass_events[OF assms(2)]
  by (cases "linkageLoop cfg anchorRoot anchorRoot (rev blocks)")
     (simp add: verifyBlocks_def reverse_in_place_def)

text \<open>
  No call of \<open>verifyBlocks\<close> throws \<open>NOT_LINEAR\<close>: the root compared with
  \<open>anchorRoot\<close> at line 20 is always \<open>anchorRoot\<close> itself.
\<close>

lemma verifyBlocks_never_NOT_LINEAR:
  "result (verifyBlocks cfg bls gps st blocks anchorRoot) \<noteq> Inl NOT_LINEAR"
proof (cases "blocks = []")
  case True
  then show ?thesis by (simp add: verifyBlocks_def)
next
  case False
  show ?thesis
  proof (cases "fst (linkageLoop cfg anchorRoot anchorRoot (rev blocks))")
    case None
    with False verifyBlocks_linkage_pass[of blocks cfg anchorRoot bls gps st] show ?thesis
      by simp
  next
    case (Some code)
    with verifyBlocks_linkage_failure[of cfg anchorRoot blocks code bls gps st]
      linkageLoop_anchor_code[of cfg anchorRoot "rev blocks" code]
    show ?thesis by simp
  qed
qed

text \<open>
  The signature sets are extracted and the batch verifier is called exactly when the list
  is not empty and every one of its blocks hashes to \<open>anchorRoot\<close>.
\<close>

lemma verifyBlocks_signature_steps_iff:
  "filter is_signature_step (trace (verifyBlocks cfg bls gps st blocks anchorRoot)) \<noteq> []
   \<longleftrightarrow> blocks \<noteq> []
        \<and> (\<forall>b \<in> set blocks.
              BeaconBlock_hashTreeRoot (getForkTypes cfg (slot (message b))) (message b)
                = anchorRoot)"
proof (cases "blocks = []")
  case True
  then show ?thesis by (simp add: verifyBlocks_def)
next
  case False
  show ?thesis
  proof (cases "fst (linkageLoop cfg anchorRoot anchorRoot (rev blocks))")
    case None
    with False verifyBlocks_linkage_pass[of blocks cfg anchorRoot bls gps st]
      linkageLoop_pass_iff[of cfg anchorRoot anchorRoot "rev blocks"]
    show ?thesis by simp
  next
    case (Some code)
    with False verifyBlocks_linkage_failure[of cfg anchorRoot blocks code bls gps st]
      linkageLoop_pass_iff[of cfg anchorRoot anchorRoot "rev blocks"]
      linkageLoop_no_signature_step[of cfg anchorRoot anchorRoot "rev blocks"]
    show ?thesis by simp
  qed
qed

text \<open>
  C1. The claim has the expected root handed from one iteration to the next, so that the
  two-block chain \<open>block_1\<close>, \<open>block_2\<close>, anchored at the hash \<open>[2, 1, 0]\<close> of
  \<open>block_2\<close>, passes the linkage walk, and the same chain with the parent root of its
  oldest block changed fails with \<open>NOT_LINEAR\<close>; the walk written as the spec describes
  it does both. The code compares every block with the anchor root: it throws
  \<open>NOT_ANCHORED\<close> on both inputs.
\<close>

theorem verifyBlocks_linked_chain_NOT_ANCHORED:
  "linkage_as_specified example_config True [2, 1, 0] (rev [block_1, block_2]) = None
   \<and> result (verifyBlocks example_config bls_accept example_proposer_set example_cached
               [block_1, block_2] [2, 1, 0]) = Inl NOT_ANCHORED
   \<and> linkage_as_specified example_config True [2, 1, 0] (rev [block_1_broken, block_2])
       = Some NOT_LINEAR
   \<and> result (verifyBlocks example_config bls_accept example_proposer_set example_cached
               [block_1_broken, block_2] [2, 1, 0]) = Inl NOT_ANCHORED"
  by (simp add: verifyBlocks_def reverse_in_place_def example_config_def example_types_def
      block_1_def block_2_def block_1_broken_def)

text \<open>
  C3. The claim has the signature sets extracted and the batch verifier called only after
  every block has passed its linkage check. The list \<open>block_2\<close>, \<open>block_2\<close>, anchored
  at the hash of \<open>block_2\<close>, is not a chain: its older block does not hash to the parent
  root \<open>[1, 0]\<close> of the newer one, and the walk written as the spec describes it fails
  there with \<open>NOT_LINEAR\<close>. The code compares both blocks with the anchor root, extracts
  both signature sets, calls the batch verifier and returns normally.
\<close>

theorem verifyBlocks_signatures_on_unlinked_list:
  "linkage_as_specified example_config True [2, 1, 0] (rev [block_2, block_2])
     = Some NOT_LINEAR
   \<and> verifyBlocks example_config bls_accept example_proposer_set example_cached
       [block_2, block_2] [2, 1, 0]
     = \<lparr>result = Inr (),
        blocks_after = [block_2, block_2],
        trace = [HashTreeRoot (message block_2), HashTreeRoot (message block_2),
                 GetProposerSignatureSet block_2, GetProposerSignatureSet block_2,
                 VerifySignatureSets [example_proposer_set example_cached block_2,
                                      example_proposer_set example_cached block_2]]\<rparr>"
  by (simp add: verifyBlocks_def reverse_in_place_def example_config_def example_types_def
      block_2_def bls_accept_def)

text \<open>
  C10, as stated, fails. The list \<open>block_1\<close>, \<open>block_2\<close> is supplied oldest first, the
  order in which the loop over the reversed array walks from newest to oldest. After the
  call the caller's array holds \<open>block_2\<close>, \<open>block_1\<close>: it is newest first, not oldest
  first.
\<close>

theorem verifyBlocks_array_newest_first:
  "blocks_after (verifyBlocks example_config bls_accept example_proposer_set example_cached
                   [block_1, block_2] [2, 1, 0]) = [block_2, block_1]
   \<and> \<not> sorted_wrt (\<lambda>a b. slot (message a) < slot (message b))
          (blocks_after (verifyBlocks example_config bls_accept example_proposer_set
                           example_cached [block_1, block_2] [2, 1, 0]))"
  by (simp add: verifyBlocks_def reverse_in_place_def example_config_def example_types_def
      block_1_def block_2_def)

text \<open>
  C10, amended. For a non-empty list the caller's array holds the supplied list reversed
  after the call, whether the call returns or throws. The signature sets handed to the
  batch verifier are those of the reversed list, in its order; when the loop passes, the
  trace is the hashes, then the extractions, both in the order of the reversed list, then
  the one call to the batch verifier. The orientation follows the input: the array is
  newest first afterwards exactly when the list was supplied oldest first, and oldest
  first afterwards exactly when the list was supplied newest first.
\<close>

theorem verifyBlocks_reverses_in_place:
  fixes cfg bls gps st blocks anchorRoot
  defines "out \<equiv> verifyBlocks cfg bls gps st blocks anchorRoot"
  assumes "blocks \<noteq> []"
  shows "blocks_after out = rev blocks
       \<and> (\<forall>sets. VerifySignatureSets sets \<in> set (trace out)
             \<longrightarrow> sets = map (gps st) (rev blocks))
       \<and> (fst (linkageLoop cfg anchorRoot anchorRoot (rev blocks)) = None \<longrightarrow>
             trace out = map (\<lambda>b. HashTreeRoot (message b)) (rev blocks)
                         @ map GetProposerSignatureSet (rev blocks)
                         @ [VerifySignatureSets (map (gps st) (rev blocks))])
       \<and> (sorted_wrt (\<lambda>a b. slot (message a) > slot (message b)) (blocks_after out)
            \<longleftrightarrow> sorted_wrt (\<lambda>a b. slot (message a) < slot (message b)) blocks)
       \<and> (sorted_wrt (\<lambda>a b. slot (message a) < slot (message b)) (blocks_after out)
            \<longleftrightarrow> sorted_wrt (\<lambda>a b. slot (message a) > slot (message b)) blocks)"
proof (cases "fst (linkageLoop cfg anchorRoot anchorRoot (rev blocks))")
  case None
  from verifyBlocks_linkage_pass[OF assms(2) None, of bls gps st] show ?thesis
    by (auto simp: out_def sorted_wrt_rev)
next
  case (Some code)
  have "VerifySignatureSets sets
          \<notin> set (snd (linkageLoop cfg anchorRoot anchorRoot (rev blocks)))" for sets
    using linkageLoop_no_signature_step[of cfg anchorRoot anchorRoot "rev blocks"]
    by (auto simp: filter_empty_conv)
  with verifyBlocks_linkage_failure[OF Some, of bls gps st] Some show ?thesis
    by (auto simp: out_def sorted_wrt_rev)
qed

text \<open>
  The theorem at the two-block chain, where the call throws: the array is reversed all the
  same. And at \<open>block_2\<close> followed by the same block under another signature, where the
  loop passes: the sets reach the batch verifier in the reversed order, that of the other
  signature first.
\<close>

theorem verifyBlocks_reverses_in_place_witness:
  "[block_1, block_2] \<noteq> []
   \<and> sorted_wrt (\<lambda>a b. slot (message a) < slot (message b)) [block_1, block_2]
   \<and> result (verifyBlocks example_config bls_accept example_proposer_set example_cached
               [block_1, block_2] [2, 1, 0]) = Inl NOT_ANCHORED
   \<and> blocks_after (verifyBlocks example_config bls_accept example_proposer_set example_cached
                     [block_1, block_2] [2, 1, 0]) = [block_2, block_1]
   \<and> sorted_wrt (\<lambda>a b. slot (message a) > slot (message b))
       (blocks_after (verifyBlocks example_config bls_accept example_proposer_set example_cached
                     [block_1, block_2] [2, 1, 0]))
   \<and> [block_2, block_2_resigned] \<noteq> []
   \<and> fst (linkageLoop example_config [2, 1, 0] [2, 1, 0] (rev [block_2, block_2_resigned]))
       = None
   \<and> blocks_after (verifyBlocks example_config bls_accept example_proposer_set example_cached
                     [block_2, block_2_resigned] [2, 1, 0]) = [block_2_resigned, block_2]
   \<and> trace (verifyBlocks example_config bls_accept example_proposer_set example_cached
              [block_2, block_2_resigned] [2, 1, 0])
       = [HashTreeRoot (message block_2), HashTreeRoot (message block_2),
          GetProposerSignatureSet block_2_resigned, GetProposerSignatureSet block_2,
          VerifySignatureSets
            [\<lparr>sigType = single, pubkey = Some [11], signingRoot = [2, 1, 0],
              signature_s = [3, 3]\<rparr>,
             \<lparr>sigType = single, pubkey = Some [11], signingRoot = [2, 1, 0],
              signature_s = [2, 2]\<rparr>]]"
proof -
  have ne1: "[block_1, block_2] \<noteq> []" and ne2: "[block_2, block_2_resigned] \<noteq> []"
    by simp_all
  have asc: "sorted_wrt (\<lambda>a b. slot (message a) < slot (message b)) [block_1, block_2]"
    by (simp add: block_1_def block_2_def)
  have pass: "fst (linkageLoop example_config [2, 1, 0] [2, 1, 0]
                     (rev [block_2, block_2_resigned])) = None"
    by (simp add: example_config_def example_types_def block_2_def block_2_resigned_def)
  have thrown: "result (verifyBlocks example_config bls_accept example_proposer_set
                          example_cached [block_1, block_2] [2, 1, 0]) = Inl NOT_ANCHORED"
    by (simp add: verifyBlocks_def reverse_in_place_def example_config_def example_types_def
        block_1_def block_2_def)
  note first = verifyBlocks_reverses_in_place
      [where blocks = "[block_1, block_2]" and cfg = example_config and bls = bls_accept
         and gps = example_proposer_set and st = example_cached and anchorRoot = "[2, 1, 0]",
       OF ne1]
  note second = verifyBlocks_reverses_in_place
      [where blocks = "[block_2, block_2_resigned]" and cfg = example_config
         and bls = bls_accept and gps = example_proposer_set and st = example_cached
         and anchorRoot = "[2, 1, 0]",
       OF ne2]
  from first have after1:
    "blocks_after (verifyBlocks example_config bls_accept example_proposer_set example_cached
                     [block_1, block_2] [2, 1, 0]) = [block_2, block_1]"
    by simp
  from first asc have desc:
    "sorted_wrt (\<lambda>a b. slot (message a) > slot (message b))
       (blocks_after (verifyBlocks example_config bls_accept example_proposer_set example_cached
                     [block_1, block_2] [2, 1, 0]))"
    by blast
  from second have after2:
    "blocks_after (verifyBlocks example_config bls_accept example_proposer_set example_cached
                     [block_2, block_2_resigned] [2, 1, 0]) = [block_2_resigned, block_2]"
    by simp
  from second pass have
    "trace (verifyBlocks example_config bls_accept example_proposer_set example_cached
              [block_2, block_2_resigned] [2, 1, 0])
       = map (\<lambda>b. HashTreeRoot (message b)) (rev [block_2, block_2_resigned])
         @ map GetProposerSignatureSet (rev [block_2, block_2_resigned])
         @ [VerifySignatureSets
              (map (example_proposer_set example_cached) (rev [block_2, block_2_resigned]))]"
    by blast
  then have tr:
    "trace (verifyBlocks example_config bls_accept example_proposer_set example_cached
              [block_2, block_2_resigned] [2, 1, 0])
       = [HashTreeRoot (message block_2), HashTreeRoot (message block_2),
          GetProposerSignatureSet block_2_resigned, GetProposerSignatureSet block_2,
          VerifySignatureSets
            [\<lparr>sigType = single, pubkey = Some [11], signingRoot = [2, 1, 0],
              signature_s = [3, 3]\<rparr>,
             \<lparr>sigType = single, pubkey = Some [11], signingRoot = [2, 1, 0],
              signature_s = [2, 2]\<rparr>]]"
    by (simp add: example_proposer_set_def example_cached_def createCachedBeaconState_def
        example_state_def example_types_def js_index_def block_2_def block_2_resigned_def)
  from ne1 asc thrown after1 desc ne2 pass after2 tr show ?thesis
    by (intro conjI)
qed

subsection \<open>The anchor checkpoint\<close>

text \<open>
  C4. With \<open>dflt\<close> the default block of the fork at the state's slot and \<open>h\<close> the hash
  of the state: when the embedded header has the genesis slot, the header returned is the
  header of the default block with its state root set to \<open>h\<close> (slot, proposer index and
  parent root are the default block's, the body root is the hash of the default body);
  otherwise it is the embedded header, with its state root replaced by \<open>h\<close> only when
  that field is the zero hash. In both cases the root of the checkpoint is the hash of the
  header returned, and the epoch of the checkpoint is the epoch that contains the state's
  slot.
\<close>

theorem computeAnchorCheckpoint_correct:
  fixes cfg st
  defines "types \<equiv> getTypes cfg (slot_s st)"
    and "r \<equiv> computeAnchorCheckpoint cfg st"
  defines "dflt \<equiv> BeaconBlock_defaultValue types"
    and "h \<equiv> BeaconState_hashTreeRoot types st"
    and "latest \<equiv> latestBlockHeader st"
  shows "(slot_h latest = GENESIS_SLOT \<longrightarrow>
            blockHeader r =
              \<lparr>slot_h = slot dflt, proposerIndex_h = proposerIndex dflt,
               parentRoot_h = parentRoot dflt, stateRoot_h = h,
               bodyRoot = BeaconBlockBody_hashTreeRoot (getForkTypes cfg (slot dflt)) (body dflt)\<rparr>)
       \<and> (slot_h latest \<noteq> GENESIS_SLOT \<longrightarrow>
            blockHeader r = (if stateRoot_h latest = ZERO_HASH then latest\<lparr>stateRoot_h := h\<rparr>
                             else latest))
       \<and> root (checkpoint r) = BeaconBlockHeader_hashTreeRoot types (blockHeader r)
       \<and> (0 < SLOTS_PER_EPOCH (params cfg) \<longrightarrow>
            epoch_c (checkpoint r) * SLOTS_PER_EPOCH (params cfg) \<le> slot_s st
          \<and> slot_s st < (epoch_c (checkpoint r) + 1) * SLOTS_PER_EPOCH (params cfg))"
proof -
  have e: "epoch_c (checkpoint r) = slot_s st div SLOTS_PER_EPOCH (params cfg)"
    by (simp add: r_def computeAnchorCheckpoint_def Let_def computeEpochAtSlot_def)
  have "slot_s st div n * n \<le> slot_s st \<and> slot_s st < (slot_s st div n + 1) * n"
    if "0 < n" for n
    using that by (simp add: dividend_less_div_times)
  with e have ep: "0 < SLOTS_PER_EPOCH (params cfg) \<longrightarrow>
            epoch_c (checkpoint r) * SLOTS_PER_EPOCH (params cfg) \<le> slot_s st
          \<and> slot_s st < (epoch_c (checkpoint r) + 1) * SLOTS_PER_EPOCH (params cfg)"
    by simp
  have rest: "(slot_h latest = GENESIS_SLOT \<longrightarrow>
            blockHeader r =
              \<lparr>slot_h = slot dflt, proposerIndex_h = proposerIndex dflt,
               parentRoot_h = parentRoot dflt, stateRoot_h = h,
               bodyRoot = BeaconBlockBody_hashTreeRoot (getForkTypes cfg (slot dflt)) (body dflt)\<rparr>)
       \<and> (slot_h latest \<noteq> GENESIS_SLOT \<longrightarrow>
            blockHeader r = (if stateRoot_h latest = ZERO_HASH then latest\<lparr>stateRoot_h := h\<rparr>
                             else latest))
       \<and> root (checkpoint r) = BeaconBlockHeader_hashTreeRoot types (blockHeader r)"
    by (simp add: r_def computeAnchorCheckpoint_def Let_def blockToHeader_def types_def dflt_def
        h_def latest_def)
  from rest ep show ?thesis by blast
qed

text \<open>
  The theorem at the genesis state (state hash \<open>[0, 2]\<close>) and at a state at slot 70 whose
  embedded header, of slot 69, has the zero hash for its state root (state hash
  \<open>[70, 3]\<close>, epoch 2 of 32 slots).
\<close>

theorem computeAnchorCheckpoint_correct_witness:
  "slot_h (latestBlockHeader genesis_state) = GENESIS_SLOT
   \<and> computeAnchorCheckpoint example_config genesis_state =
       \<lparr>checkpoint = \<lparr>root = [0, 0, 2], epoch_c = 0\<rparr>,
        blockHeader = \<lparr>slot_h = 0, proposerIndex_h = 0, parentRoot_h = ZERO_HASH,
                       stateRoot_h = [0, 2], bodyRoot = [0]\<rparr>\<rparr>
   \<and> slot_h (latestBlockHeader example_state) \<noteq> GENESIS_SLOT
   \<and> stateRoot_h (latestBlockHeader example_state) = ZERO_HASH
   \<and> computeAnchorCheckpoint example_config example_state =
       \<lparr>checkpoint = \<lparr>root = [69, 70, 3], epoch_c = 2\<rparr>,
        blockHeader = \<lparr>slot_h = 69, proposerIndex_h = 3, parentRoot_h = [1],
                       stateRoot_h = [70, 3], bodyRoot = [2]\<rparr>\<rparr>
   \<and> 0 < SLOTS_PER_EPOCH (params example_config)
   \<and> 2 * SLOTS_PER_EPOCH (params example_config) \<le> slot_s example_state
   \<and> slot_s example_state < 3 * SLOTS_PER_EPOCH (params example_config)"
  using computeAnchorCheckpoint_correct[where cfg = example_config and st = genesis_state]
    computeAnchorCheckpoint_correct[where cfg = example_config and st = example_state]
  by (simp add: example_config_def example_types_def genesis_state_def example_state_def
      GENESIS_SLOT_def computeAnchorCheckpoint_def blockToHeader_def computeEpochAtSlot_def)

subsection \<open>The state caches\<close>

text \<open>
  C6. After \<open>restoreStateCaches\<close> the cache indexed by state root, looked up at the
  root of the state, and the cache indexed by checkpoint, looked up at the anchor
  checkpoint of the state, both give the one cached state built from the state and the
  configuration; it holds the state itself and the epoch context derived from it.
\<close>

theorem restoreStateCaches_both_indices:
  fixes cfg stateCache checkpointStateCache st
  defines "after \<equiv> restoreStateCaches cfg stateCache checkpointStateCache st"
    and "cp \<equiv> checkpoint (computeAnchorCheckpoint cfg st)"
    and "stRoot \<equiv> BeaconState_hashTreeRoot (getTypes cfg (slot_s st)) st"
  shows "StateContextCache_get (fst after) stRoot = Some (createCachedBeaconState cfg st)
       \<and> CheckpointStateCache_get (snd after) cp = Some (createCachedBeaconState cfg st)
       \<and> state_c (createCachedBeaconState cfg st) = st
       \<and> index2pubkey (epochCtx (createCachedBeaconState cfg st)) = validators st"
  by (simp add: after_def cp_def stRoot_def restoreStateCaches_def Let_def
      StateContextCache_add_def StateContextCache_get_def CheckpointStateCache_add_def
      CheckpointStateCache_get_def cachedStateRoot_def createCachedBeaconState_def)

text \<open>Entries under other keys stay as they were.\<close>

lemma restoreStateCaches_other_keys:
  fixes cfg stateCache checkpointStateCache st
  defines "after \<equiv> restoreStateCaches cfg stateCache checkpointStateCache st"
  shows "rt \<noteq> BeaconState_hashTreeRoot (getTypes cfg (slot_s st)) st \<Longrightarrow>
           StateContextCache_get (fst after) rt = StateContextCache_get stateCache rt"
    and "c \<noteq> checkpoint (computeAnchorCheckpoint cfg st) \<Longrightarrow>
           CheckpointStateCache_get (snd after) c = CheckpointStateCache_get checkpointStateCache c"
  by (simp_all add: after_def restoreStateCaches_def Let_def
      StateContextCache_add_def StateContextCache_get_def CheckpointStateCache_add_def
      CheckpointStateCache_get_def cachedStateRoot_def createCachedBeaconState_def)

theorem restoreStateCaches_both_indices_witness:
  "StateContextCache_get
     (fst (restoreStateCaches example_config Map.empty Map.empty example_state)) [70, 3]
     = Some example_cached
   \<and> CheckpointStateCache_get
     (snd (restoreStateCaches example_config Map.empty Map.empty example_state))
     \<lparr>root = [69, 70, 3], epoch_c = 2\<rparr> = Some example_cached"
  using restoreStateCaches_both_indices
    [where cfg = example_config and st = example_state and stateCache = Map.empty
       and checkpointStateCache = Map.empty]
  by (simp add: example_cached_def example_config_def example_types_def example_state_def
      GENESIS_SLOT_def computeAnchorCheckpoint_def computeEpochAtSlot_def)

subsection \<open>The signature set of a voluntary exit\<close>

text \<open>
  C8. The signature set of a signed voluntary exit is of the single type; its signing root
  is \<open>computeSigningRoot\<close> of the exit message under the domain that \<open>getDomain\<close> gives
  for \<open>DOMAIN_VOLUNTARY_EXIT\<close> at the start slot of the exit's epoch; its public key is
  the entry of \<open>index2pubkey\<close> at the exit's validator index (nothing when the index is
  past the end); its signature is the exit's. The slot the domain is resolved at lies in
  the exit's epoch and is the first slot that does. The result is a function of the
  arguments alone.
\<close>

theorem getVoluntaryExitSignatureSet_correct:
  fixes getDomain computeSigningRoot st signedVoluntaryExit
  defines "r \<equiv> getVoluntaryExitSignatureSet getDomain computeSigningRoot st signedVoluntaryExit"
    and "cfg \<equiv> config st"
    and "msg \<equiv> exit_message signedVoluntaryExit"
  defines "sl \<equiv> computeStartSlotAtEpoch cfg (epoch msg)"
  shows "sigType r = single
       \<and> signingRoot r =
           computeSigningRoot cfg msg (getDomain st (DOMAIN_VOLUNTARY_EXIT (params cfg)) sl)
       \<and> pubkey r = js_index (index2pubkey (epochCtx st)) (validatorIndex msg)
       \<and> (validatorIndex msg < length (index2pubkey (epochCtx st)) \<longrightarrow>
            pubkey r = Some (index2pubkey (epochCtx st) ! validatorIndex msg))
       \<and> signature_s r = exit_signature signedVoluntaryExit
       \<and> (0 < SLOTS_PER_EPOCH (params cfg) \<longrightarrow>
            computeEpochAtSlot cfg sl = epoch msg
          \<and> (\<forall>s. computeEpochAtSlot cfg s = epoch msg \<longrightarrow> sl \<le> s))"
proof -
  have d: "0 < SLOTS_PER_EPOCH (params cfg) \<longrightarrow>
            computeEpochAtSlot cfg sl = epoch msg
          \<and> (\<forall>s. computeEpochAtSlot cfg s = epoch msg \<longrightarrow> sl \<le> s)"
  proof (intro impI conjI allI)
    assume "0 < SLOTS_PER_EPOCH (params cfg)"
    then show "computeEpochAtSlot cfg sl = epoch msg"
      by (simp add: sl_def computeEpochAtSlot_def computeStartSlotAtEpoch_def)
  next
    fix s
    assume "computeEpochAtSlot cfg s = epoch msg"
    then have "epoch msg = s div SLOTS_PER_EPOCH (params cfg)"
      by (simp add: computeEpochAtSlot_def)
    then show "sl \<le> s"
      by (simp add: sl_def computeStartSlotAtEpoch_def)
  qed
  have "sigType r = single
       \<and> signingRoot r =
           computeSigningRoot cfg msg (getDomain st (DOMAIN_VOLUNTARY_EXIT (params cfg)) sl)
       \<and> pubkey r = js_index (index2pubkey (epochCtx st)) (validatorIndex msg)
       \<and> (validatorIndex msg < length (index2pubkey (epochCtx st)) \<longrightarrow>
            pubkey r = Some (index2pubkey (epochCtx st) ! validatorIndex msg))
       \<and> signature_s r = exit_signature signedVoluntaryExit"
    by (simp add: r_def cfg_def msg_def sl_def getVoluntaryExitSignatureSet_def Let_def
        js_index_def)
  with d show ?thesis by blast
qed

text \<open>
  The theorem for the exit of validator 1 at epoch 3, with a domain that appends the slot
  to the domain type and a signing root that puts the epoch before the domain: the start
  slot is 96. An exit of validator 5, past the three validators, has no public key.
\<close>

theorem getVoluntaryExitSignatureSet_correct_witness:
  "validatorIndex \<lparr>epoch = 3, validatorIndex = 1\<rparr> < length (index2pubkey (epochCtx example_cached))
   \<and> 0 < SLOTS_PER_EPOCH (params (config example_cached))
   \<and> getVoluntaryExitSignatureSet (\<lambda>s d sl. d @ [word_of_nat sl])
       (\<lambda>c m d. word_of_nat (epoch m) # d) example_cached
       \<lparr>exit_message = \<lparr>epoch = 3, validatorIndex = 1\<rparr>, exit_signature = [7, 7]\<rparr>
     = \<lparr>sigType = single, pubkey = Some [11], signingRoot = [3, 4, 0, 0, 0, 96],
        signature_s = [7, 7]\<rparr>
   \<and> computeEpochAtSlot example_config 96 = 3
   \<and> pubkey (getVoluntaryExitSignatureSet (\<lambda>s d sl. d @ [word_of_nat sl])
               (\<lambda>c m d. word_of_nat (epoch m) # d) example_cached
               \<lparr>exit_message = \<lparr>epoch = 3, validatorIndex = 5\<rparr>, exit_signature = [7, 7]\<rparr>)
       = None"
  using getVoluntaryExitSignatureSet_correct
    [where st = example_cached
       and signedVoluntaryExit =
         "\<lparr>exit_message = \<lparr>epoch = 3, validatorIndex = 1\<rparr>, exit_signature = [7, 7]\<rparr>"
       and getDomain = "\<lambda>s d sl. d @ [word_of_nat sl]"
       and computeSigningRoot = "\<lambda>c m d. word_of_nat (epoch m) # d"]
  by (simp add: getVoluntaryExitSignatureSet_def js_index_def computeStartSlotAtEpoch_def
      computeEpochAtSlot_def example_cached_def createCachedBeaconState_def example_config_def
      example_state_def)

subsection \<open>The state from the database\<close>

text \<open>
  C9. \<open>initStateFromDb\<close> throws the error "No state exists in database" when the state
  archive is empty, and otherwise returns the last state of the archive; it throws exactly
  when the archive is empty, and a throw carries no state; after a state has been
  archived, that state is the one returned.
\<close>

theorem initStateFromDb_correct:
  "(stateArchive db = [] \<longrightarrow>
      fst (initStateFromDb cfg db) = Inl (Error ''No state exists in database''))
   \<and> (stateArchive db \<noteq> [] \<longrightarrow> fst (initStateFromDb cfg db) = Inr (last (stateArchive db)))
   \<and> (isl (fst (initStateFromDb cfg db)) \<longleftrightarrow> stateArchive db = [])
   \<and> fst (initStateFromDb cfg (stateArchive_add db st)) = Inr st"
proof -
  have l: "stateArchive_lastValue d =
             (if stateArchive d = [] then None else Some (last (stateArchive d)))" for d
    by (cases "stateArchive d" rule: rev_cases) (simp_all add: stateArchive_lastValue_def)
  show ?thesis
    by (simp add: initStateFromDb_def l stateArchive_add_def)
qed

theorem initStateFromDb_correct_witness:
  "stateArchive \<lparr>stateArchive = [], blockArchive = []\<rparr> = []
   \<and> fst (initStateFromDb example_config \<lparr>stateArchive = [], blockArchive = []\<rparr>)
       = Inl (Error ''No state exists in database'')
   \<and> stateArchive \<lparr>stateArchive = [genesis_state, example_state], blockArchive = []\<rparr> \<noteq> []
   \<and> fst (initStateFromDb example_config
             \<lparr>stateArchive = [genesis_state, example_state], blockArchive = []\<rparr>)
       = Inr example_state
   \<and> initStateFromDb example_config
        (stateArchive_add \<lparr>stateArchive = [], blockArchive = []\<rparr> example_state)
       = (Inr example_state,
          [\<lparr>log_message = ''Initializing beacon state from db'', log_slot = 70, log_epoch = 2,
            log_stateRoot = [70, 3]\<rparr>])"
  using initStateFromDb_correct
      [where db = "\<lparr>stateArchive = [], blockArchive = []\<rparr>" and cfg = example_config
         and st = example_state]
    initStateFromDb_correct
      [where db = "\<lparr>stateArchive = [genesis_state, example_state], blockArchive = []\<rparr>"
         and cfg = example_config and st = example_state]
  by (simp add: initStateFromDb_def stateArchive_lastValue_def stateArchive_add_def
      computeEpochAtSlot_def example_config_def example_types_def example_state_def)

subsection \<open>Block processing\<close>

text \<open>
  C2, as stated, fails. \<open>processBlock\<close> returns no state; the stages work on the state
  object it was given. On \<open>example_state\<close> and \<open>block_70\<close>, with the state-root check
  off, the call returns normally and the state object then holds a new embedded header, a
  new randao mix and one more eth1 vote: it is not the input state.
\<close>

theorem processBlock_changes_input:
  "processBlock example_processors example_state block_70 (Some False) =
     (None, example_state
        \<lparr>latestBlockHeader :=
           \<lparr>slot_h = 70, proposerIndex_h = 2, parentRoot_h = 69 # ZERO_HASH,
            stateRoot_h = ZERO_HASH, bodyRoot = [0, 9]\<rparr>,
         randaoMix := [6, 5],
         eth1DataVotes := [[9]]\<rparr>)
   \<and> snd (processBlock example_processors example_state block_70 (Some False))
       \<noteq> example_state"
  by (simp add: processBlock_def example_processors_def spec_processors_def
      spec_processBlockHeader_def spec_processRandao_def spec_processEth1Data_def
      spec_processOperations_def example_types_def example_state_def block_70_def
      example_body_def)

text \<open>
  C2, amended. \<open>processBlock\<close> works in place on the state object it is given. With
  \<open>hdr\<close>, \<open>rnd\<close>, \<open>eth\<close> and \<open>ops\<close> the outcomes of the header, randao, eth1-data
  and operations stages, each run on the state the one before left, and \<open>chk\<close> that of
  the state-root check: the state object after the call is the state left by the first of
  the four stages that throws, else, when \<open>verify\<close> is not false, the state left by the
  state-root check, else the state left by the operations stage. Hence an observation
  \<open>f\<close> of the state that none of the stages run changes (the state-root check counted
  only when \<open>verify\<close> is not false) has the same value after the call as before.
\<close>

theorem processBlock_in_place:
  fixes P st block verifyArg f
  defines "verify \<equiv> (verifyArg \<noteq> Some False)"
  defines "hdr \<equiv> processBlockHeader P st block verify"
  defines "rnd \<equiv> processRandao P (snd hdr) (body block)"
  defines "eth \<equiv> processEth1Data P (snd rnd) (body block)"
  defines "ops \<equiv> processOperations P (snd eth) (body block)"
  defines "chk \<equiv> verifyBlockStateRoot P (snd ops) block"
  shows "snd (processBlock P st block verifyArg) =
           (if fst hdr \<noteq> None then snd hdr
            else if fst rnd \<noteq> None then snd rnd
            else if fst eth \<noteq> None then snd eth
            else if fst ops \<noteq> None then snd ops
            else if verify then snd chk
            else snd ops)
       \<and> ((\<forall>s. f (snd (processBlockHeader P s block verify)) = f s)
          \<and> (\<forall>s. f (snd (processRandao P s (body block))) = f s)
          \<and> (\<forall>s. f (snd (processEth1Data P s (body block))) = f s)
          \<and> (\<forall>s. f (snd (processOperations P s (body block))) = f s)
          \<and> (verify \<longrightarrow> (\<forall>s. f (snd (verifyBlockStateRoot P s block)) = f s))
          \<longrightarrow> f (snd (processBlock P st block verifyArg)) = f st)"
proof -
  have v: "(case verifyArg of None \<Rightarrow> True | Some v \<Rightarrow> v) = verify"
    by (cases verifyArg) (auto simp: verify_def)
  have after: "snd (processBlock P st block verifyArg) =
           (if fst hdr \<noteq> None then snd hdr
            else if fst rnd \<noteq> None then snd rnd
            else if fst eth \<noteq> None then snd eth
            else if fst ops \<noteq> None then snd ops
            else if verify then snd chk
            else snd ops)"
  proof -
    obtain r1 s1 where h: "processBlockHeader P st block verify = (r1, s1)" by fastforce
    obtain r2 s2 where r: "processRandao P s1 (body block) = (r2, s2)" by fastforce
    obtain r3 s3 where e: "processEth1Data P s2 (body block) = (r3, s3)" by fastforce
    obtain r4 s4 where o: "processOperations P s3 (body block) = (r4, s4)" by fastforce
    obtain r5 s5 where c: "verifyBlockStateRoot P s4 block = (r5, s5)" by fastforce
    have stages: "hdr = (r1, s1)" "rnd = (r2, s2)" "eth = (r3, s3)" "ops = (r4, s4)"
      "chk = (r5, s5)"
      by (simp_all add: hdr_def rnd_def eth_def ops_def chk_def h r e o c)
    show ?thesis
      by (simp add: processBlock_def v stages h r e o c split: option.splits)
  qed
  have frame: "f (snd (processBlock P st block verifyArg)) = f st"
    if h: "\<forall>s. f (snd (processBlockHeader P s block verify)) = f s"
      and r: "\<forall>s. f (snd (processRandao P s (body block))) = f s"
      and e: "\<forall>s. f (snd (processEth1Data P s (body block))) = f s"
      and o: "\<forall>s. f (snd (processOperations P s (body block))) = f s"
      and c: "verify \<longrightarrow> (\<forall>s. f (snd (verifyBlockStateRoot P s block)) = f s)"
  proof -
    from h have f1: "f (snd hdr) = f st" by (simp add: hdr_def)
    from r f1 have f2: "f (snd rnd) = f st" by (simp add: rnd_def)
    from e f2 have f3: "f (snd eth) = f st" by (simp add: eth_def)
    from o f3 have f4: "f (snd ops) = f st" by (simp add: ops_def)
    from c f4 have f5: "verify \<Longrightarrow> f (snd chk) = f st" by (simp add: chk_def)
    from f1 f2 f3 f4 f5 show ?thesis by (simp add: after)
  qed
  from after frame show ?thesis by blast
qed

text \<open>
  The theorem on \<open>example_state\<close> and \<open>block_70\<close> with the state-root check off: no
  stage throws, and the state after the call is the state the operations stage left, which
  is the changed state above. No stage of the example writes the validator registry: it is
  the same after the call. With the default \<open>verify\<close> the state-root check throws and
  leaves the same state.
\<close>

theorem processBlock_in_place_witness:
  "snd (processBlock example_processors example_state block_70 (Some False))
     = snd (processOperations example_processors
              (example_state
                 \<lparr>latestBlockHeader :=
                    \<lparr>slot_h = 70, proposerIndex_h = 2, parentRoot_h = 69 # ZERO_HASH,
                     stateRoot_h = ZERO_HASH, bodyRoot = [0, 9]\<rparr>,
                  randaoMix := [6, 5],
                  eth1DataVotes := [[9]]\<rparr>)
              (body block_70))
   \<and> validators (snd (processBlock example_processors example_state block_70 (Some False)))
       = validators example_state
   \<and> validators example_state = [[10], [11], [12]]
   \<and> fst (processBlock example_processors example_state block_70 None)
       = Some StateRootMismatch
   \<and> validators (snd (processBlock example_processors example_state block_70 None))
       = validators example_state"
  using
    processBlock_in_place
      [where P = example_processors and st = example_state and block = block_70
         and verifyArg = "Some False" and f = validators]
    processBlock_in_place
      [where P = example_processors and st = example_state and block = block_70
         and verifyArg = None and f = validators]
  by (simp add: processBlock_def example_processors_def spec_processors_def
      spec_processBlockHeader_def spec_processRandao_def spec_processEth1Data_def
      spec_processOperations_def spec_verifyBlockStateRoot_def example_types_def
      example_state_def block_70_def example_body_def)

text \<open>
  C5. \<open>processBlock\<close> is the run, up to the first failure, of the header stage, the
  randao stage, the eth1-data stage and the operations stage in this order, each on the
  state the one before left, followed by the state-root check only when \<open>verify\<close> is
  not false; with \<open>verify = false\<close> the check is not among the stages run.
\<close>

theorem processBlock_stage_order:
  fixes P st block verifyArg
  defines "verify \<equiv> (verifyArg \<noteq> Some False)"
  shows "processBlock P st block verifyArg =
     run_stages
       ([\<lambda>s. processBlockHeader P s block verify,
         \<lambda>s. processRandao P s (body block),
         \<lambda>s. processEth1Data P s (body block),
         \<lambda>s. processOperations P s (body block)]
        @ (if verify then [\<lambda>s. verifyBlockStateRoot P s block] else []))
       st"
proof -
  have v: "(case verifyArg of None \<Rightarrow> True | Some v \<Rightarrow> v) = verify"
    by (cases verifyArg) (auto simp: verify_def)
  show ?thesis
    unfolding processBlock_def v Let_def
    by (auto split: prod.splits option.splits)
qed

text \<open>
  The theorem on \<open>block_70\<close>: with the default \<open>verify\<close> the four stages run and the
  state-root check fails (the block declares \<open>[0]\<close>, the state hashes to \<open>[70, 3]\<close>);
  with \<open>verify = false\<close> the same block passes; with the right state root it passes the
  check; a block at slot 69 fails in the header stage.
\<close>

theorem processBlock_stage_order_witness:
  "processBlock example_processors example_state block_70 None =
     (Some StateRootMismatch,
      example_state
        \<lparr>latestBlockHeader :=
           \<lparr>slot_h = 70, proposerIndex_h = 2, parentRoot_h = 69 # ZERO_HASH,
            stateRoot_h = ZERO_HASH, bodyRoot = [0, 9]\<rparr>,
         randaoMix := [6, 5],
         eth1DataVotes := [[9]]\<rparr>)
   \<and> fst (processBlock example_processors example_state block_70 (Some False)) = None
   \<and> fst (processBlock example_processors example_state (block_70\<lparr>stateRoot := [70, 3]\<rparr>)
           (Some True)) = None
   \<and> processBlock example_processors example_state (block_70\<lparr>slot := 69\<rparr>) None
       = (Some InvalidHeader, example_state)"
  using processBlock_stage_order[of example_processors example_state block_70 None]
    processBlock_stage_order[of example_processors example_state block_70 "Some False"]
    processBlock_stage_order
      [of example_processors example_state "block_70\<lparr>stateRoot := [70, 3]\<rparr>" "Some True"]
    processBlock_stage_order[of example_processors example_state "block_70\<lparr>slot := 69\<rparr>" None]
  by (simp add: example_processors_def spec_processors_def
      spec_processBlockHeader_def spec_processRandao_def spec_processEth1Data_def
      spec_processOperations_def spec_verifyBlockStateRoot_def example_types_def
      example_state_def block_70_def example_body_def)

end
